theory Spec2Isabelle
  imports Complex_Main
begin

section \<open>The classroom scoreboard of app.js\<close>

text \<open>
  A shallow embedding of \<^verbatim>\<open>src/app.js\<close>: the class \<^verbatim>\<open>ScoreboardState\<close>, the midnight
  timer it arms and the visibility handler of \<^verbatim>\<open>ScoreboardEventHandler\<close>.

  Conventions of the model.
  \<^item> Every method takes the object's fields (a record) and the browser objects it touches
    and returns them updated, together with the method's return value.
  \<^item> \<^verbatim>\<open>Date.now()\<close> and \<^verbatim>\<open>new Date()\<close> are the argument \<open>now\<close> (epoch milliseconds): one
    method call reads the clock at one instant.
  \<^item> \<^verbatim>\<open>Intl.DateTimeFormat\<close> and the \<^verbatim>\<open>Date\<close> constructor on a date string belong to the
    browser, not to the repository; they are the two fields of a \<open>platform\<close> record that
    every function using them takes as its first argument.
  \<^item> A JavaScript number is a double. The levels, the maximum level, the version and the
    time stamp of a record come out of \<^verbatim>\<open>JSON.parse\<close> and are adopted as they are, so they
    have the type \<open>number\<close> below, with the rounding of double arithmetic written out.
    The clock (\<^verbatim>\<open>Date.now()\<close>), the lane index that \<^verbatim>\<open>parseInt\<close> yields and the timer
    delays are whole numbers, of type \<open>int\<close>.
  \<^item> An exception is a value of \<open>js_error\<close>; a \<^verbatim>\<open>try/catch\<close> is a case distinction on it.
\<close>

subsection \<open>JavaScript numbers\<close>

text \<open>
  A finite double is a rational number, and \<open>toDouble\<close> rounds a rational to the nearest
  double (binary64: 53 significant bits, ties to the even significand, a fixed spacing
  below 2 to the power -1022). The finite doubles are the rationals of magnitude below
  2 to the power 1024 that \<open>toDouble\<close> leaves unchanged; every statement below is
  proved for all rationals, hence for all finite doubles. In JavaScript
  \<^verbatim>\<open>x + 1\<close> is the exact sum rounded, here \<open>toDouble (x + 1)\<close>; comparisons are exact. Adding
  or subtracting 1 never overflows. Not represented: \<^verbatim>\<open>NaN\<close>, the infinities (\<^verbatim>\<open>JSON.parse\<close>
  yields one for a literal such as \<^verbatim>\<open>1e999\<close>), and the sign of zero, which no operation of
  the program distinguishes.
\<close>

type_synonym number = rat

function bitlen :: "int \<Rightarrow> int" where
  \<comment> \<open>the number of binary digits of a positive integer\<close>
  "bitlen n = (if n \<le> 0 then 0 else 1 + bitlen (n div 2))"
  by pat_completeness auto
termination
  by (relation "measure nat") auto

declare bitlen.simps [simp del]

definition ilog2 :: "rat \<Rightarrow> int" where
  \<comment> \<open>for \<open>a > 0\<close>, the binary exponent of \<open>a\<close>: the integer part of its logarithm to base 2\<close>
  "ilog2 a = (if 1 \<le> a then bitlen \<lfloor>a\<rfloor> - 1 else - bitlen (\<lceil>1 / a\<rceil> - 1))"

definition pow2 :: "int \<Rightarrow> rat" where
  "pow2 e = (if 0 \<le> e then 2 ^ nat e else 1 / 2 ^ nat (- e))"

definition roundHalfEven :: "rat \<Rightarrow> int" where
  "roundHalfEven y =
     (let f = \<lfloor>y\<rfloor>; d = y - of_int f
      in if d < 1 / 2 then f else if 1 / 2 < d then f + 1 else if even f then f else f + 1)"

definition toDouble :: "rat \<Rightarrow> number" where
  "toDouble x =
     (if x = 0 then 0
      else (let a = \<bar>x\<bar>;
                e = max (ilog2 a) (- 1022);
                q = pow2 (e - 52)
            in sgn x * of_int (roundHalfEven (a / q)) * q))"

definition whole :: "number \<Rightarrow> bool" where
  "whole x = (of_int \<lfloor>x\<rfloor> = x)"

subsection \<open>CONFIG\<close>

definition LANES :: nat where
  "LANES = 6"

definition MAX_LEVELS :: number where
  "MAX_LEVELS = 20"

definition TIMEZONE :: string where
  "TIMEZONE = ''Asia/Taipei''"

definition VISIBILITY_DELAY :: int where
  \<comment> \<open>the literal 1000 of \<^verbatim>\<open>bindVisibilityEvents\<close>\<close>
  "VISIBILITY_DELAY = 1000"

definition DAY_MS :: int where
  \<comment> \<open>\<^verbatim>\<open>24 * 60 * 60 * 1000\<close> of \<^verbatim>\<open>msUntilNextMidnight\<close>\<close>
  "DAY_MS = 24 * 60 * 60 * 1000"

subsection \<open>Browser facilities\<close>

datatype js_error = SyntaxError | TypeError | QuotaExceededError

record platform =
  formatDate :: "string \<Rightarrow> int \<Rightarrow> string"
    \<comment> \<open>\<^verbatim>\<open>Intl.DateTimeFormat('en-CA', {timeZone: tz, ...})\<close> applied to an instant:
        the calendar date \<^verbatim>\<open>YYYY-MM-DD\<close> of that instant in zone \<open>tz\<close>\<close>
  parseLocal :: "string \<Rightarrow> int"
    \<comment> \<open>\<^verbatim>\<open>new Date(text).getTime()\<close> for a text without zone offset, which the
        browser reads in its own local zone\<close>

text \<open>
  The record \<^verbatim>\<open>save\<close> writes. A stored text is one of: the empty string (falsy in
  \<^verbatim>\<open>if (stored)\<close>), a text on which the \<^verbatim>\<open>try\<close> block throws (\<^verbatim>\<open>JSON.parse\<close> rejects
  it), or the JSON text of an object with the six fields below, of any values.
  \<^verbatim>\<open>JSON.stringify\<close> followed by \<^verbatim>\<open>JSON.parse\<close> is the identity on such objects, so the
  text of an object is represented by the object: \<open>tz\<close> and \<open>dateKey\<close> any strings,
  \<open>levels\<close> an array of numbers of any length, the other three any numbers. Texts of
  other JSON values (an object with a field missing or of another type) are not
  represented.
\<close>

record persisted =
  data_version :: number
  data_tz :: string
  data_dateKey :: string
  data_levels :: "number list"
  data_maxLevels :: number
  data_lastUpdated :: number

datatype stored = EmptyText | BadText | RecordText persisted

record localStorage =
  item :: "stored option"
    \<comment> \<open>the entry under \<^verbatim>\<open>CONFIG.STORAGE_KEY\<close>; \<open>None\<close> when \<^verbatim>\<open>getItem\<close> returns null\<close>
  quotaExceeded :: bool
    \<comment> \<open>whether \<^verbatim>\<open>setItem\<close> throws instead of writing\<close>

definition getItem :: "localStorage \<Rightarrow> stored option" where
  "getItem ls = item ls"

definition setItem :: "stored \<Rightarrow> localStorage \<Rightarrow> js_error + localStorage" where
  "setItem v ls = (if quotaExceeded ls then Inl QuotaExceededError else Inr (ls\<lparr>item := Some v\<rparr>))"

definition JSON_parse :: "stored \<Rightarrow> js_error + persisted" where
  "JSON_parse txt = (case txt of RecordText data \<Rightarrow> Inr data | _ \<Rightarrow> Inl SyntaxError)"

subsection \<open>ScoreboardState\<close>

record state =
  levels :: "number list"
  maxLevels :: number
  timezone :: string
  dateKey :: string
  lastUpdated :: number
  isLocked :: bool
  midnightTimer :: "nat option"
  visibilityTimer :: "nat option"

definition constructor :: "int \<Rightarrow> state" where
  "constructor now =
     \<lparr>levels = replicate LANES 0, maxLevels = MAX_LEVELS, timezone = TIMEZONE, dateKey = [],
      lastUpdated = of_int now, isLocked = False, midnightTimer = None,
      visibilityTimer = None\<rparr>"

definition todayKey :: "platform \<Rightarrow> int \<Rightarrow> state \<Rightarrow> string" where
  "todayKey P now s = formatDate P (timezone s) now"

definition msUntilNextMidnight :: "platform \<Rightarrow> int \<Rightarrow> state \<Rightarrow> int" where
  "msUntilNextMidnight P now s =
     (let today = parseLocal P (formatDate P (timezone s) now @ ''T00:00:00'');
          next = today + DAY_MS
      in next - now)"

definition save :: "int \<Rightarrow> state \<Rightarrow> localStorage \<Rightarrow> localStorage" where
  "save now s ls =
     (let data = \<lparr>data_version = 1, data_tz = timezone s, data_dateKey = dateKey s,
                  data_levels = levels s, data_maxLevels = maxLevels s,
                  data_lastUpdated = of_int now\<rparr>
      in case setItem (RecordText data) ls of
           Inl error \<Rightarrow> ls
         | Inr ls' \<Rightarrow> ls')"

definition resetForNewDay :: "platform \<Rightarrow> int \<Rightarrow> state \<Rightarrow> localStorage \<Rightarrow> state \<times> localStorage" where
  "resetForNewDay P now s ls =
     (let s1 = s\<lparr>levels := replicate LANES 0\<rparr>;
          s2 = s1\<lparr>dateKey := todayKey P now s1\<rparr>;
          s3 = s2\<lparr>lastUpdated := of_int now\<rparr>
      in (s3, save now s3 ls))"

text \<open>
  The five assignments of \<^verbatim>\<open>loadOrInit\<close> that adopt the parsed object. \<^verbatim>\<open>a || b\<close> is
  \<open>b\<close> when \<open>a\<close> is falsy: the number 0, the empty string.
\<close>

definition adopt :: "persisted \<Rightarrow> state \<Rightarrow> state" where
  "adopt data s =
     s\<lparr>levels := data_levels data,
       maxLevels := (if data_maxLevels data = 0 then MAX_LEVELS else data_maxLevels data),
       timezone := (if data_tz data = [] then TIMEZONE else data_tz data),
       dateKey := data_dateKey data,
       lastUpdated := data_lastUpdated data\<rparr>"

text \<open>
  The \<^verbatim>\<open>try\<close> block of \<^verbatim>\<open>loadOrInit\<close>: \<open>Inr (Some s')\<close> when it returns true with the
  record adopted, \<open>Inr None\<close> when it falls through, \<open>Inl e\<close> when it throws.
\<close>

definition loadOrInit_try :: "platform \<Rightarrow> int \<Rightarrow> state \<Rightarrow> localStorage \<Rightarrow> js_error + state option" where
  "loadOrInit_try P now s ls =
     (case getItem ls of
        None \<Rightarrow> Inr None
      | Some txt \<Rightarrow>
          if txt = EmptyText then Inr None
          else (case JSON_parse txt of
                  Inl error \<Rightarrow> Inl error
                | Inr data \<Rightarrow>
                    (let today = todayKey P now s
                     in if data_dateKey data = today \<and> data_version data = 1
                        then Inr (Some (adopt data s))
                        else Inr None)))"

definition loadOrInit :: "platform \<Rightarrow> int \<Rightarrow> state \<Rightarrow> localStorage \<Rightarrow> bool \<times> state \<times> localStorage" where
  "loadOrInit P now s ls =
     (case loadOrInit_try P now s ls of
        Inr (Some s') \<Rightarrow> (True, s', ls)
      | Inr None \<Rightarrow> (False, resetForNewDay P now s ls)
      | Inl error \<Rightarrow> (False, resetForNewDay P now s ls))"

text \<open>
  \<^verbatim>\<open>this.levels[lane]\<close>: an index past the end of the array reads \<^verbatim>\<open>undefined\<close>, and both
  \<^verbatim>\<open>undefined < n\<close> and \<^verbatim>\<open>undefined > 0\<close> are false. Lanes are whole numbers here; the
  \<^verbatim>\<open>NaN\<close> that \<^verbatim>\<open>parseInt\<close> gives for a missing attribute passes the range check of the
  source, reads \<^verbatim>\<open>undefined\<close> and is refused in the same way.
\<close>

definition levelAt :: "number list \<Rightarrow> int \<Rightarrow> number option" where
  "levelAt ls lane = (if 0 \<le> lane \<and> nat lane < length ls then Some (ls ! nat lane) else None)"

definition increment :: "int \<Rightarrow> int \<Rightarrow> state \<Rightarrow> localStorage \<Rightarrow> bool \<times> state \<times> localStorage" where
  "increment now lane s ls =
     (if isLocked s \<or> lane < 0 \<or> lane \<ge> int LANES then (False, s, ls)
      else case levelAt (levels s) lane of
             None \<Rightarrow> (False, s, ls)
           | Some v \<Rightarrow>
               if v < maxLevels s
               then (let s1 = s\<lparr>levels := (levels s)[nat lane := toDouble (v + 1)]\<rparr>;
                         s2 = s1\<lparr>lastUpdated := of_int now\<rparr>
                     in (True, s2, save now s2 ls))
               else (False, s, ls))"

definition decrement :: "int \<Rightarrow> int \<Rightarrow> state \<Rightarrow> localStorage \<Rightarrow> bool \<times> state \<times> localStorage" where
  "decrement now lane s ls =
     (if isLocked s \<or> lane < 0 \<or> lane \<ge> int LANES then (False, s, ls)
      else case levelAt (levels s) lane of
             None \<Rightarrow> (False, s, ls)
           | Some v \<Rightarrow>
               if v > 0
               then (let s1 = s\<lparr>levels := (levels s)[nat lane := toDouble (v - 1)]\<rparr>;
                         s2 = s1\<lparr>lastUpdated := of_int now\<rparr>
                     in (True, s2, save now s2 ls))
               else (False, s, ls))"

definition resetToday :: "int \<Rightarrow> state \<Rightarrow> localStorage \<Rightarrow> state \<times> localStorage" where
  "resetToday now s ls =
     (let s1 = s\<lparr>levels := replicate LANES 0\<rparr>;
          s2 = s1\<lparr>lastUpdated := of_int now\<rparr>
      in (s2, save now s2 ls))"

definition toggleLock :: "int \<Rightarrow> state \<Rightarrow> localStorage \<Rightarrow> bool \<times> state \<times> localStorage" where
  "toggleLock now s ls =
     (let s1 = s\<lparr>isLocked := \<not> isLocked s\<rparr>
      in (isLocked s1, s1, save now s1 ls))"

subsection \<open>Timers\<close>

text \<open>
  \<^verbatim>\<open>setTimeout\<close> and \<^verbatim>\<open>clearTimeout\<close>: the browser keeps the list of pending one-shot
  timers and hands out handles, which are positive integers that are never reused. The
  two arrow functions the program passes to \<^verbatim>\<open>setTimeout\<close> on the state's timer fields are
  the two constructors of \<open>task\<close>.
\<close>

datatype task = MidnightTask | VisibilityTask

record timer =
  handle :: nat
  callback :: task
  due :: int

record runtime =
  pending :: "timer list"
  nextHandle :: nat

definition setTimeout :: "task \<Rightarrow> int \<Rightarrow> int \<Rightarrow> runtime \<Rightarrow> nat \<times> runtime" where
  "setTimeout cb delay now rt =
     (nextHandle rt,
      rt\<lparr>pending := pending rt @ [\<lparr>handle = nextHandle rt, callback = cb, due = now + delay\<rparr>],
         nextHandle := nextHandle rt + 1\<rparr>)"

definition clearTimeout :: "nat \<Rightarrow> runtime \<Rightarrow> runtime" where
  "clearTimeout h rt = rt\<lparr>pending := filter (\<lambda>t. handle t \<noteq> h) (pending rt)\<rparr>"

definition truthy :: "nat option \<Rightarrow> bool" where
  \<comment> \<open>\<^verbatim>\<open>if (this.midnightTimer)\<close>: null and 0 are falsy\<close>
  "truthy v = (case v of None \<Rightarrow> False | Some h \<Rightarrow> h \<noteq> 0)"

record world =
  app :: state
  storage :: localStorage
  timers :: runtime

definition ScoreboardState_methods :: "string list" where
  \<comment> \<open>the methods \<^verbatim>\<open>class ScoreboardState\<close> declares, in the order of the source\<close>
  "ScoreboardState_methods =
     [''todayKey'', ''msUntilNextMidnight'', ''loadOrInit'', ''save'', ''resetForNewDay'',
      ''increment'', ''decrement'', ''resetToday'', ''toggleLock'', ''scheduleMidnightReset'',
      ''cleanup'']"

definition scheduleMidnightReset :: "platform \<Rightarrow> int \<Rightarrow> world \<Rightarrow> world" where
  "scheduleMidnightReset P now w =
     (let rt1 = (if truthy (midnightTimer (app w))
                 then clearTimeout (the (midnightTimer (app w))) (timers w)
                 else timers w);
          msUntilMidnight = msUntilNextMidnight P now (app w);
          (h, rt2) = setTimeout MidnightTask msUntilMidnight now rt1
      in w\<lparr>app := (app w)\<lparr>midnightTimer := Some h\<rparr>, timers := rt2\<rparr>)"

text \<open>
  The arrow function armed by \<^verbatim>\<open>scheduleMidnightReset\<close>. Inside it \<^verbatim>\<open>this\<close> is the
  \<^verbatim>\<open>ScoreboardState\<close>; \<^verbatim>\<open>this.render()\<close> calls a property the class does not declare
  (\<^verbatim>\<open>render\<close> is a method of \<^verbatim>\<open>ScoreboardRenderer\<close>) and nothing assigns it, so the call
  throws a TypeError and the statement after it is not reached. The assignments made
  before the throw stay. Rendering itself only writes the DOM, which is not modelled.
\<close>

definition midnightCallback :: "platform \<Rightarrow> int \<Rightarrow> world \<Rightarrow> js_error option \<times> world" where
  "midnightCallback P now w =
     (let (s1, ls1) = resetForNewDay P now (app w) (storage w);
          w1 = w\<lparr>app := s1, storage := ls1\<rparr>
      in if ''render'' \<in> set ScoreboardState_methods
         then (None, scheduleMidnightReset P now w1)
         else (Some TypeError, w1))"

text \<open>The arrow function armed by the \<^verbatim>\<open>visibilitychange\<close> listener.\<close>

definition visibilityCallback :: "platform \<Rightarrow> int \<Rightarrow> world \<Rightarrow> world" where
  "visibilityCallback P now w =
     (let today = todayKey P now (app w)
      in if dateKey (app w) \<noteq> today
         then (let (s1, ls1) = resetForNewDay P now (app w) (storage w)
               in w\<lparr>app := s1, storage := ls1\<rparr>)
         else w)"

text \<open>
  The \<^verbatim>\<open>visibilitychange\<close> listener of \<^verbatim>\<open>bindVisibilityEvents\<close>; \<open>hidden\<close> is
  \<^verbatim>\<open>document.hidden\<close> at the event.
\<close>

definition onVisibilityChange :: "int \<Rightarrow> bool \<Rightarrow> world \<Rightarrow> world" where
  "onVisibilityChange now hidden w =
     (if \<not> hidden
      then (let (h, rt1) = setTimeout VisibilityTask VISIBILITY_DELAY now (timers w)
            in w\<lparr>app := (app w)\<lparr>visibilityTimer := Some h\<rparr>, timers := rt1\<rparr>)
      else w)"

text \<open>
  The browser running the timer with handle \<open>h\<close>: a one-shot timer leaves the pending
  list before its callback runs; a handle that is not pending (fired or cleared) runs
  nothing. An exception a callback throws is reported to \<^verbatim>\<open>window.onerror\<close>, here the
  first component of the result.
\<close>

definition fireTimer :: "platform \<Rightarrow> int \<Rightarrow> nat \<Rightarrow> world \<Rightarrow> js_error option \<times> world" where
  "fireTimer P now h w =
     (case find (\<lambda>t. handle t = h) (pending (timers w)) of
        None \<Rightarrow> (None, w)
      | Some t \<Rightarrow>
          (let w1 = w\<lparr>timers := clearTimeout h (timers w)\<rparr>
           in case callback t of
                MidnightTask \<Rightarrow> midnightCallback P now w1
              | VisibilityTask \<Rightarrow> (None, visibilityCallback P now w1)))"

definition cleanup :: "world \<Rightarrow> world" where
  "cleanup w =
     (let rt1 = (if truthy (midnightTimer (app w))
                 then clearTimeout (the (midnightTimer (app w))) (timers w)
                 else timers w);
          rt2 = (if truthy (visibilityTimer (app w))
                 then clearTimeout (the (visibilityTimer (app w))) rt1
                 else rt1)
      in w\<lparr>timers := rt2\<rparr>)"

text \<open>
  \<^verbatim>\<open>new ScoreboardApp()\<close> followed by \<^verbatim>\<open>init()\<close> on a page whose local storage is \<open>ls\<close>:
  no timer is pending yet and the first handle is 1.
\<close>

definition init :: "platform \<Rightarrow> int \<Rightarrow> localStorage \<Rightarrow> world" where
  "init P now ls =
     (let (loaded, s1, ls1) = loadOrInit P now (constructor now) ls;
          w = \<lparr>app = s1, storage = ls1, timers = \<lparr>pending = [], nextHandle = 1\<rparr>\<rparr>
      in scheduleMidnightReset P now w)"

definition midnightTimers :: "world \<Rightarrow> timer list" where
  "midnightTimers w = filter (\<lambda>t. callback t = MidnightTask) (pending (timers w))"

definition visibilityTimers :: "world \<Rightarrow> timer list" where
  "visibilityTimers w = filter (\<lambda>t. callback t = VisibilityTask) (pending (timers w))"

text \<open>
  The state's \<^verbatim>\<open>midnightTimer\<close> field tracks the pending midnight timers: handles are
  positive and below the next one to be handed out, and a pending midnight timer has the
  handle the field holds.
\<close>

definition midnight_tracked :: "world \<Rightarrow> bool" where
  "midnight_tracked w =
     (list_all (\<lambda>t. 0 < handle t \<and> handle t < nextHandle (timers w)) (pending (timers w))
      \<and> list_all (\<lambda>t. midnightTimer (app w) = Some (handle t)) (midnightTimers w))"

subsection \<open>The data-model invariant, call sequences and reachable states\<close>

definition bounds :: "state \<Rightarrow> bool" where
  \<comment> \<open>exactly \<open>LANES\<close> levels, each between 0 and the maximum level\<close>
  "bounds s = (length (levels s) = LANES \<and> list_all (\<lambda>v. 0 \<le> v \<and> v \<le> maxLevels s) (levels s))"

definition inv :: "state \<Rightarrow> bool" where
  \<comment> \<open>the bounds, on whole numbers that double arithmetic counts exactly\<close>
  "inv s = (bounds s \<and> list_all whole (levels s) \<and> whole (maxLevels s) \<and> maxLevels s \<le> 2 ^ 53)"



definition adoptable :: "platform \<Rightarrow> int \<Rightarrow> state \<Rightarrow> localStorage \<Rightarrow> persisted option" where
  \<comment> \<open>the record \<^verbatim>\<open>loadOrInit\<close> would adopt, if any\<close>
  "adoptable P now s ls =
     (case item ls of
        Some (RecordText data) \<Rightarrow>
          if data_dateKey data = todayKey P now s \<and> data_version data = 1 then Some data else None
      | _ \<Rightarrow> None)"

definition recordOf :: "int \<Rightarrow> state \<Rightarrow> persisted" where
  \<comment> \<open>the object literal of \<^verbatim>\<open>save\<close>\<close>
  "recordOf now s =
     \<lparr>data_version = 1, data_tz = timezone s, data_dateKey = dateKey s,
      data_levels = levels s, data_maxLevels = maxLevels s, data_lastUpdated = of_int now\<rparr>"






subsection \<open>A concrete browser and concrete stores\<close>

text \<open>
  A browser whose own zone is Asia/Taipei, observed on 2023-01-01 and 2023-01-02 local
  time: 1672588800000 is the epoch millisecond of 2023-01-02T00:00:00+08:00 and
  1672502400000 that of 2023-01-01T00:00:00+08:00.
\<close>

definition taipeiBrowser :: platform where
  "taipeiBrowser =
     \<lparr>formatDate = (\<lambda>tz t. if t < 1672588800000 then ''2023-01-01'' else ''2023-01-02''),
      parseLocal = (\<lambda>txt. if txt = ''2023-01-01T00:00:00'' then 1672502400000
                           else 1672588800000)\<rparr>"

text \<open>
  The same two days seen from a browser whose own zone is UTC: the dates of Asia/Taipei
  are formatted as before, but a date text without offset is read as UTC midnight
  (1672531200000 is 2023-01-01T00:00:00Z, 1672617600000 is 2023-01-02T00:00:00Z).
\<close>

definition utcBrowser :: platform where
  "utcBrowser =
     \<lparr>formatDate = (\<lambda>tz t. if t < 1672588800000 then ''2023-01-01'' else ''2023-01-02''),
      parseLocal = (\<lambda>txt. if txt = ''2023-01-01T00:00:00'' then 1672531200000
                           else 1672617600000)\<rparr>"

definition emptyStore :: localStorage where
  "emptyStore = \<lparr>item = None, quotaExceeded = False\<rparr>"

definition storeWith :: "persisted \<Rightarrow> localStorage" where
  "storeWith data = \<lparr>item = Some (RecordText data), quotaExceeded = False\<rparr>"

definition sampleRecord :: "string \<Rightarrow> number \<Rightarrow> number list \<Rightarrow> persisted" where
  "sampleRecord key v ls =
     \<lparr>data_version = v, data_tz = ''Asia/Taipei'', data_dateKey = key, data_levels = ls,
      data_maxLevels = 20, data_lastUpdated = 1672560000000\<rparr>"

text \<open>
  The state of a page opened in the afternoon of 2023-01-01 whose store holds a version 1
  record of that day with the levels \<open>ls\<close> and the maximum level \<open>m\<close>.
\<close>

definition adoptedState :: "number list \<Rightarrow> number \<Rightarrow> state" where
  "adoptedState ls m =
     fst (snd (loadOrInit taipeiBrowser 1672570000000 (constructor 1672570000000)
                 (storeWith ((sampleRecord ''2023-01-01'' 1 ls)\<lparr>data_maxLevels := m\<rparr>))))"

definition sampleState :: "number list \<Rightarrow> bool \<Rightarrow> state" where
  "sampleState ls locked =
     \<lparr>levels = ls, maxLevels = 20, timezone = ''Asia/Taipei'', dateKey = ''2023-01-01'',
      lastUpdated = 1672560000000, isLocked = locked, midnightTimer = None,
      visibilityTimer = None\<rparr>"

section \<open>Properties\<close>

subsection \<open>Double arithmetic on whole numbers\<close>

lemma bitlen_pos: "0 < n \<Longrightarrow> bitlen n = 1 + bitlen (n div 2)"
  by (simp add: bitlen.simps [of n])

lemma bitlen_nonpos: "n \<le> 0 \<Longrightarrow> bitlen n = 0"
  by (simp add: bitlen.simps [of n])

lemma bitlen_bounds:
  "0 < n \<Longrightarrow> 0 < bitlen n \<and> 2 ^ nat (bitlen n - 1) \<le> n \<and> n < 2 ^ nat (bitlen n)"
proof (induction n rule: bitlen.induct)
  case (1 n)
  show ?case
  proof (cases "n div 2 \<le> 0")
    case True
    with "1.prems" have "n = 1" by linarith
    then show ?thesis by (simp add: bitlen_pos bitlen_nonpos)
  next
    case False
    then have h: "0 < n div 2" by simp
    from "1.IH" "1.prems" h
    have ih: "0 < bitlen (n div 2)" "2 ^ nat (bitlen (n div 2) - 1) \<le> n div 2"
      "n div 2 < 2 ^ nat (bitlen (n div 2))" by auto
    let ?k = "bitlen (n div 2)"
    have b: "bitlen n = 1 + ?k" using "1.prems" by (rule bitlen_pos)
    have n1: "nat (1 + ?k - 1) = Suc (nat (?k - 1))" using ih(1) by simp
    have n2: "nat (1 + ?k) = Suc (nat ?k)" using ih(1) by simp
    have lo: "2 * 2 ^ nat (?k - 1) \<le> n" using ih(2) by linarith
    have hi: "n < 2 * 2 ^ nat ?k" using ih(3) by linarith
    show ?thesis unfolding b n1 n2 using ih(1) lo hi by simp
  qed
qed

lemma roundHalfEven_of_int [simp]: "roundHalfEven (of_int k) = k"
  by (simp add: roundHalfEven_def)

text \<open>An integer of at most 53 bits is its own significand, scaled by a power of two.\<close>

lemma toDouble_magnitude:
  assumes "0 < m" "m \<le> 2 ^ 53"
  shows "of_int (roundHalfEven (of_int m / pow2 (max (ilog2 (of_int m)) (- 1022) - 52)))
           * pow2 (max (ilog2 (of_int m)) (- 1022) - 52) = (of_int m :: rat)"
proof -
  let ?k = "bitlen m"
  from bitlen_bounds [OF assms(1)]
  have k: "0 < ?k" "2 ^ nat (?k - 1) \<le> m" "m < 2 ^ nat ?k" by auto
  have il: "ilog2 (of_int m) = ?k - 1"
    using assms(1) by (simp add: ilog2_def)
  have p53: "(2::int) ^ nat (?k - 1) \<le> 2 ^ 53" using k(2) assms(2) by linarith
  have "nat (?k - 1) \<le> 53"
  proof (rule power_le_imp_le_exp [of "2::int"])
    show "(1::int) < 2" by simp
    show "(2::int) ^ nat (?k - 1) \<le> 2 ^ 53" by (rule p53)
  qed
  then have kb: "?k - 1 \<le> 53" by linarith
  have e: "max (ilog2 (of_int m)) (- 1022) = ?k - 1" using il k(1) by simp
  show ?thesis
  proof (cases "?k - 1 \<le> 52")
    case True
    define j where "j = nat (52 - (?k - 1))"
    have q: "pow2 (?k - 1 - 52) = 1 / 2 ^ j"
    proof (cases "?k - 1 = 52")
      case True
      then show ?thesis by (simp add: pow2_def j_def)
    next
      case False
      with \<open>?k - 1 \<le> 52\<close> have "?k - 1 - 52 < 0" by simp
      then show ?thesis by (simp add: pow2_def j_def)
    qed
    have d: "(of_int m :: rat) / (1 / 2 ^ j) = of_int (m * 2 ^ j)" by simp
    show ?thesis unfolding e q d roundHalfEven_of_int by simp
  next
    case False
    with kb have k53: "?k - 1 = 53" by simp
    with k(2) assms(2) have m: "m = 2 ^ 53" by simp
    have q: "pow2 (?k - 1 - 52) = 2" using k53 by (simp add: pow2_def)
    have d: "(of_int m :: rat) / 2 = of_int (2 ^ 52)" unfolding m by simp
    show ?thesis unfolding e q d roundHalfEven_of_int unfolding m by simp
  qed
qed

lemma toDouble_of_int: "\<bar>n\<bar> \<le> 2 ^ 53 \<Longrightarrow> toDouble (of_int n) = of_int n"
proof (cases "n = 0")
  case True
  then show ?thesis by (simp add: toDouble_def)
next
  case False
  assume b: "\<bar>n\<bar> \<le> 2 ^ 53"
  from False have p: "0 < \<bar>n\<bar>" by simp
  have a: "\<bar>of_int n :: rat\<bar> = of_int \<bar>n\<bar>" by simp
  have s: "sgn (of_int n :: rat) * of_int \<bar>n\<bar> = of_int n"
    by (simp add: sgn_if)
  have "toDouble (of_int n)
      = sgn (of_int n)
        * (of_int (roundHalfEven
             (of_int \<bar>n\<bar> / pow2 (max (ilog2 (of_int \<bar>n\<bar>)) (- 1022) - 52)))
           * pow2 (max (ilog2 (of_int \<bar>n\<bar>)) (- 1022) - 52))"
    using False unfolding toDouble_def a by (simp add: Let_def mult.assoc)
  also have "\<dots> = sgn (of_int n) * of_int \<bar>n\<bar>"
    unfolding toDouble_magnitude [OF p b] ..
  also have "\<dots> = of_int n" by (rule s)
  finally show ?thesis .
qed

lemma whole_of_int [simp]: "whole (of_int n)"
  by (simp add: whole_def)

lemma wholeE: "whole x \<Longrightarrow> x = of_int \<lfloor>x\<rfloor>"
  unfolding whole_def by (rule sym)

lemma whole_numeral [simp]: "whole 0" "whole 1" "whole (numeral k)"
  by (simp_all add: whole_def)

lemma toDouble_exact:
  assumes "whole x" "\<bar>x\<bar> \<le> 2 ^ 53"
  shows "toDouble x = x"
proof -
  from assms(1) have x: "x = of_int \<lfloor>x\<rfloor>" by (rule wholeE)
  from assms(2) have "of_int \<bar>\<lfloor>x\<rfloor>\<bar> \<le> (of_int (2 ^ 53) :: rat)"
    by (subst (asm) x) simp
  then have "\<bar>\<lfloor>x\<rfloor>\<bar> \<le> 2 ^ 53" by (simp only: of_int_le_iff)
  then have "toDouble (of_int \<lfloor>x\<rfloor>) = of_int \<lfloor>x\<rfloor>" by (rule toDouble_of_int)
  with x show ?thesis by simp
qed

text \<open>
  Between 0 and a whole maximum of at most \<open>2 ^ 53\<close>, one step up from below the maximum
  and one step down from above 0 are exact, stay whole and stay within the bounds.
\<close>

lemma step_up_exact:
  assumes "whole v" "whole m" "0 \<le> v" "v < m" "m \<le> 2 ^ 53"
  shows "toDouble (v + 1) = v + 1" "whole (v + 1)" "v + 1 \<le> m"
proof -
  from assms(1,2) have v: "v = of_int \<lfloor>v\<rfloor>" and m: "m = of_int \<lfloor>m\<rfloor>" by (auto dest: wholeE)
  from assms(4) have "\<lfloor>v\<rfloor> < \<lfloor>m\<rfloor>" by (subst (asm) v, subst (asm) m) simp
  then have "\<lfloor>v\<rfloor> + 1 \<le> \<lfloor>m\<rfloor>" by simp
  then have "(of_int (\<lfloor>v\<rfloor> + 1) :: rat) \<le> of_int \<lfloor>m\<rfloor>" by (simp only: of_int_le_iff)
  with v m show le: "v + 1 \<le> m" by simp
  have "v + 1 = of_int (\<lfloor>v\<rfloor> + 1)" using v by simp
  then show w: "whole (v + 1)" by (metis whole_of_int)
  from le assms(3,5) have "\<bar>v + 1\<bar> \<le> 2 ^ 53" by simp
  with w show "toDouble (v + 1) = v + 1" by (rule toDouble_exact)
qed

lemma step_down_exact:
  assumes "whole v" "0 < v" "v \<le> 2 ^ 53"
  shows "toDouble (v - 1) = v - 1" "whole (v - 1)" "0 \<le> v - 1"
proof -
  from assms(1) have v: "v = of_int \<lfloor>v\<rfloor>" by (rule wholeE)
  from assms(2) have "0 < \<lfloor>v\<rfloor>" by (subst (asm) v) simp
  then have "0 \<le> \<lfloor>v\<rfloor> - 1" by simp
  then have "(0::rat) \<le> of_int (\<lfloor>v\<rfloor> - 1)" by (simp only: of_int_0_le_iff)
  with v show ge: "0 \<le> v - 1" by simp
  have "v - 1 = of_int (\<lfloor>v\<rfloor> - 1)" using v by simp
  then show w: "whole (v - 1)" by (metis whole_of_int)
  from ge assms(3) have "\<bar>v - 1\<bar> \<le> 2 ^ 53" by simp
  with w show "toDouble (v - 1) = v - 1" by (rule toDouble_exact)
qed


subsection \<open>Evaluation and rewriting lemmas\<close>

lemma replicate_LANES: "replicate LANES (0::number) = [0, 0, 0, 0, 0, 0]"
  by (simp add: LANES_def numeral_eq_Suc)

lemma save_eq:
  "save now s ls = (if quotaExceeded ls then ls else ls\<lparr>item := Some (RecordText (recordOf now s))\<rparr>)"
  by (simp add: save_def setItem_def recordOf_def)

lemma save_quota [simp]: "quotaExceeded (save now s ls) = quotaExceeded ls"
  by (simp add: save_eq)

lemma save_written: "\<not> quotaExceeded ls \<Longrightarrow> item (save now s ls) = Some (RecordText (recordOf now s))"
  by (simp add: save_eq)

lemma todayKey_update [simp]:
  "todayKey P now (s\<lparr>levels := xs\<rparr>) = todayKey P now s"
  "todayKey P now (s\<lparr>lastUpdated := t\<rparr>) = todayKey P now s"
  "todayKey P now (s\<lparr>isLocked := b\<rparr>) = todayKey P now s"
  "todayKey P now (s\<lparr>dateKey := k\<rparr>) = todayKey P now s"
  by (simp_all add: todayKey_def)

lemma increment_general:
  "increment now lane s ls =
     (if isLocked s \<or> lane < 0 \<or> int LANES \<le> lane \<or> length (levels s) \<le> nat lane
         \<or> maxLevels s \<le> levels s ! nat lane
      then (False, s, ls)
      else (True,
            s\<lparr>levels := (levels s)[nat lane := toDouble (levels s ! nat lane + 1)],
              lastUpdated := of_int now\<rparr>,
            save now (s\<lparr>levels := (levels s)[nat lane := toDouble (levels s ! nat lane + 1)],
                        lastUpdated := of_int now\<rparr>) ls))"
  by (auto simp: increment_def Let_def levelAt_def split: option.splits)

lemma decrement_general:
  "decrement now lane s ls =
     (if isLocked s \<or> lane < 0 \<or> int LANES \<le> lane \<or> length (levels s) \<le> nat lane
         \<or> levels s ! nat lane \<le> 0
      then (False, s, ls)
      else (True,
            s\<lparr>levels := (levels s)[nat lane := toDouble (levels s ! nat lane - 1)],
              lastUpdated := of_int now\<rparr>,
            save now (s\<lparr>levels := (levels s)[nat lane := toDouble (levels s ! nat lane - 1)],
                        lastUpdated := of_int now\<rparr>) ls))"
  by (auto simp: decrement_def Let_def levelAt_def split: option.splits)

lemma increment_false:
  "\<not> fst (increment now lane s ls) \<Longrightarrow> increment now lane s ls = (False, s, ls)"
  by (auto simp: increment_def Let_def split: option.splits if_splits)

lemma decrement_false:
  "\<not> fst (decrement now lane s ls) \<Longrightarrow> decrement now lane s ls = (False, s, ls)"
  by (auto simp: decrement_def Let_def split: option.splits if_splits)

lemma resetToday_eq:
  "resetToday now s ls =
     (s\<lparr>levels := replicate LANES 0, lastUpdated := of_int now\<rparr>,
      save now (s\<lparr>levels := replicate LANES 0, lastUpdated := of_int now\<rparr>) ls)"
  by (simp add: resetToday_def Let_def)

lemma resetForNewDay_eq:
  "resetForNewDay P now s ls =
     (s\<lparr>levels := replicate LANES 0, dateKey := todayKey P now s, lastUpdated := of_int now\<rparr>,
      save now (s\<lparr>levels := replicate LANES 0, dateKey := todayKey P now s,
                  lastUpdated := of_int now\<rparr>) ls)"
  by (simp add: resetForNewDay_def Let_def)

lemma toggleLock_eq:
  "toggleLock now s ls =
     (\<not> isLocked s, s\<lparr>isLocked := \<not> isLocked s\<rparr>, save now (s\<lparr>isLocked := \<not> isLocked s\<rparr>) ls)"
  by (simp add: toggleLock_def Let_def)


lemma loadOrInit_eq:
  "loadOrInit P now s ls =
     (case adoptable P now s ls of
        Some data \<Rightarrow> (True, adopt data s, ls)
      | None \<Rightarrow> (False, resetForNewDay P now s ls))"
  by (auto simp: loadOrInit_def loadOrInit_try_def adoptable_def getItem_def JSON_parse_def Let_def
      split: option.splits stored.splits)

lemma scheduleMidnightReset_eq:
  "scheduleMidnightReset P now w =
     w\<lparr>app := (app w)\<lparr>midnightTimer := Some (nextHandle (timers w))\<rparr>,
       timers :=
         \<lparr>pending =
            (if truthy (midnightTimer (app w))
             then filter (\<lambda>t. handle t \<noteq> the (midnightTimer (app w))) (pending (timers w))
             else pending (timers w))
            @ [\<lparr>handle = nextHandle (timers w), callback = MidnightTask,
                 due = now + msUntilNextMidnight P now (app w)\<rparr>],
          nextHandle = nextHandle (timers w) + 1\<rparr>\<rparr>"
  by (simp add: scheduleMidnightReset_def setTimeout_def clearTimeout_def Let_def)

lemma midnightCallback_eq:
  "midnightCallback P now w =
     (Some TypeError,
      w\<lparr>app := fst (resetForNewDay P now (app w) (storage w)),
        storage := snd (resetForNewDay P now (app w) (storage w))\<rparr>)"
  by (simp add: midnightCallback_def ScoreboardState_methods_def Let_def split_beta)

lemma onVisibilityChange_eq:
  "onVisibilityChange now False w =
     w\<lparr>app := (app w)\<lparr>visibilityTimer := Some (nextHandle (timers w))\<rparr>,
       timers :=
         \<lparr>pending = pending (timers w)
            @ [\<lparr>handle = nextHandle (timers w), callback = VisibilityTask,
                 due = now + VISIBILITY_DELAY\<rparr>],
          nextHandle = nextHandle (timers w) + 1\<rparr>\<rparr>"
  by (simp add: onVisibilityChange_def setTimeout_def Let_def)

lemma onVisibilityChange_hidden: "onVisibilityChange now True w = w"
  by (simp add: onVisibilityChange_def)

lemma visibilityCallback_eq:
  "visibilityCallback P now w =
     (if dateKey (app w) \<noteq> todayKey P now (app w)
      then w\<lparr>app := fst (resetForNewDay P now (app w) (storage w)),
             storage := snd (resetForNewDay P now (app w) (storage w))\<rparr>
      else w)"
  by (simp add: visibilityCallback_def Let_def split_beta)

lemma init_before_midnight:
  "init taipeiBrowser 1672588799999 emptyStore =
     \<lparr>app = \<lparr>levels = [0, 0, 0, 0, 0, 0], maxLevels = 20, timezone = ''Asia/Taipei'',
              dateKey = ''2023-01-01'', lastUpdated = 1672588799999, isLocked = False,
              midnightTimer = Some 1, visibilityTimer = None\<rparr>,
      storage = \<lparr>item = Some (RecordText
                   \<lparr>data_version = 1, data_tz = ''Asia/Taipei'', data_dateKey = ''2023-01-01'',
                    data_levels = [0, 0, 0, 0, 0, 0], data_maxLevels = 20,
                    data_lastUpdated = 1672588799999\<rparr>),
                 quotaExceeded = False\<rparr>,
      timers = \<lparr>pending = [\<lparr>handle = 1, callback = MidnightTask, due = 1672588800000\<rparr>],
                nextHandle = 2\<rparr>\<rparr>"
  by (simp add: init_def loadOrInit_eq adoptable_def emptyStore_def resetForNewDay_eq save_eq
      recordOf_def scheduleMidnightReset_eq truthy_def msUntilNextMidnight_def taipeiBrowser_def
      DAY_MS_def constructor_def todayKey_def replicate_LANES MAX_LEVELS_def TIMEZONE_def)

lemma init_afternoon:
  "init taipeiBrowser 1672570000000 emptyStore =
     \<lparr>app = \<lparr>levels = [0, 0, 0, 0, 0, 0], maxLevels = 20, timezone = ''Asia/Taipei'',
              dateKey = ''2023-01-01'', lastUpdated = 1672570000000, isLocked = False,
              midnightTimer = Some 1, visibilityTimer = None\<rparr>,
      storage = \<lparr>item = Some (RecordText
                   \<lparr>data_version = 1, data_tz = ''Asia/Taipei'', data_dateKey = ''2023-01-01'',
                    data_levels = [0, 0, 0, 0, 0, 0], data_maxLevels = 20,
                    data_lastUpdated = 1672570000000\<rparr>),
                 quotaExceeded = False\<rparr>,
      timers = \<lparr>pending = [\<lparr>handle = 1, callback = MidnightTask, due = 1672588800000\<rparr>],
                nextHandle = 2\<rparr>\<rparr>"
  by (simp add: init_def loadOrInit_eq adoptable_def emptyStore_def resetForNewDay_eq save_eq
      recordOf_def scheduleMidnightReset_eq truthy_def msUntilNextMidnight_def taipeiBrowser_def
      DAY_MS_def constructor_def todayKey_def replicate_LANES MAX_LEVELS_def TIMEZONE_def)

subsection \<open>The invariant along the calls, the configuration of reachable states\<close>


lemma inv_nth:
  "inv s \<Longrightarrow> 0 \<le> lane \<Longrightarrow> lane < int LANES \<Longrightarrow>
     nat lane < length (levels s) \<and> 0 \<le> levels s ! nat lane
       \<and> levels s ! nat lane \<le> maxLevels s \<and> whole (levels s ! nat lane)"
  by (auto simp: inv_def bounds_def list_all_length)

















lemma inv_sampleState:
  "inv (sampleState [0, 0, 5, 0, 0, 0] b)" "inv (sampleState [0, 0, 20, 0, 0, 0] b)"
  by (simp_all add: inv_def bounds_def sampleState_def LANES_def)



lemma scheduleMidnightReset_single:
  assumes "midnight_tracked w" and "0 < nextHandle (timers w)"
  shows "midnightTimers (scheduleMidnightReset P now w)
           = [\<lparr>handle = nextHandle (timers w), callback = MidnightTask,
                due = now + msUntilNextMidnight P now (app w)\<rparr>]
         \<and> midnight_tracked (scheduleMidnightReset P now w)"
proof -
  let ?keep = "if truthy (midnightTimer (app w))
     then filter (\<lambda>t. handle t \<noteq> the (midnightTimer (app w))) (pending (timers w))
     else pending (timers w)"
  from assms(1) have b: "\<forall>t\<in>set (pending (timers w)). 0 < handle t \<and> handle t < nextHandle (timers w)"
    and m: "\<forall>t\<in>set (pending (timers w)). callback t = MidnightTask
              \<longrightarrow> midnightTimer (app w) = Some (handle t)"
    by (auto simp: midnight_tracked_def midnightTimers_def list_all_iff)
  have sub: "set ?keep \<subseteq> set (pending (timers w))" by auto
  have none: "filter (\<lambda>t. callback t = MidnightTask) ?keep = []"
  proof (cases "truthy (midnightTimer (app w))")
    case True
    with m show ?thesis by (auto simp: filter_empty_conv)
  next
    case False
    with m b show ?thesis
      by (fastforce simp: filter_empty_conv truthy_def split: option.splits)
  qed
  have one: "midnightTimers (scheduleMidnightReset P now w)
           = [\<lparr>handle = nextHandle (timers w), callback = MidnightTask,
                due = now + msUntilNextMidnight P now (app w)\<rparr>]"
    using none by (simp add: scheduleMidnightReset_eq midnightTimers_def)
  have "midnight_tracked (scheduleMidnightReset P now w)"
    unfolding midnight_tracked_def one
    using b sub assms(2) by (auto simp: scheduleMidnightReset_eq list_all_iff)
  with one show ?thesis by simp
qed

text \<open>The adopted states used as examples, and the double arithmetic on their levels.\<close>

lemma adoptedState_eq:
  "adoptedState ls m =
     \<lparr>levels = ls, maxLevels = (if m = 0 then 20 else m), timezone = ''Asia/Taipei'',
      dateKey = ''2023-01-01'', lastUpdated = 1672560000000, isLocked = False,
      midnightTimer = None, visibilityTimer = None\<rparr>"
  by (simp add: adoptedState_def loadOrInit_eq adoptable_def storeWith_def sampleRecord_def
      todayKey_def taipeiBrowser_def constructor_def TIMEZONE_def MAX_LEVELS_def adopt_def)

lemma toDouble_values:
  "toDouble (41 / 2) = 41 / 2"
  "toDouble (- (1 / 2)) = - (1 / 2)"
  "toDouble 9007199254740993 = 9007199254740992"
  by code_simp+

text \<open>
  The rounding agrees with the doubles JavaScript prints: \<^verbatim>\<open>0.1\<close> is
  3602879701896397 / 2^55, \<^verbatim>\<open>1.3 - 1\<close> is \<^verbatim>\<open>0.30000000000000004\<close>, and a tie goes to the
  even significand.
\<close>

lemma toDouble_rounding:
  "toDouble (1 / 10) = 3602879701896397 / 36028797018963968"
  "toDouble (toDouble (13 / 10) - 1) = 5404319552844596 / 18014398509481984"
  "toDouble 9007199254740995 = 9007199254740996"
  by code_simp+

subsection \<open>C1: the bounds on the levels\<close>




subsection \<open>C2: the lock\<close>

text \<open>
  Claim C2, as amended. In a locked state \<open>increment\<close> and \<open>decrement\<close> return false
  and leave the state and the store as they were. \<open>resetToday\<close> and \<open>resetForNewDay\<close>
  do not read the lock and return no value: locked or not they zero the levels and stamp
  \<open>lastUpdated\<close>, and \<open>resetForNewDay\<close> sets the date key to today's.
\<close>

theorem locked_gate:
  assumes "isLocked s"
  shows "increment now lane s ls = (False, s, ls)
       \<and> decrement now lane s ls = (False, s, ls)
       \<and> fst (resetToday now s ls) = s\<lparr>levels := replicate LANES 0, lastUpdated := of_int now\<rparr>
       \<and> fst (resetForNewDay P now s ls) =
           s\<lparr>levels := replicate LANES 0, dateKey := todayKey P now s, lastUpdated := of_int now\<rparr>"
  using assms by (simp add: increment_def decrement_def resetToday_eq resetForNewDay_eq)

theorem locked_gate_witness:
  "isLocked (sampleState [5, 0, 0, 0, 0, 0] True)
   \<and> increment 1672570000000 0 (sampleState [5, 0, 0, 0, 0, 0] True) emptyStore
       = (False, sampleState [5, 0, 0, 0, 0, 0] True, emptyStore)
   \<and> levels (fst (resetToday 1672570000000 (sampleState [5, 0, 0, 0, 0, 0] True) emptyStore))
       = [0, 0, 0, 0, 0, 0]"
proof -
  have l: "isLocked (sampleState [5, 0, 0, 0, 0, 0] True)" by (simp add: sampleState_def)
  show ?thesis
    using locked_gate [OF l, of 1672570000000 0 emptyStore taipeiBrowser] l
    by (simp add: replicate_LANES)
qed

text \<open>
  The claim as written fails for the two resets: in a locked state with five points on
  lane 0 they change the levels, the time stamp and the date key.
\<close>

theorem locked_gate_counterexample:
  "isLocked (sampleState [5, 0, 0, 0, 0, 0] True)
   \<and> levels (fst (resetToday 1672570000000 (sampleState [5, 0, 0, 0, 0, 0] True) emptyStore))
       \<noteq> levels (sampleState [5, 0, 0, 0, 0, 0] True)
   \<and> lastUpdated (fst (resetToday 1672570000000 (sampleState [5, 0, 0, 0, 0, 0] True) emptyStore))
       \<noteq> lastUpdated (sampleState [5, 0, 0, 0, 0, 0] True)
   \<and> levels (fst (resetForNewDay taipeiBrowser 1672590000000
                    (sampleState [5, 0, 0, 0, 0, 0] True) emptyStore))
       \<noteq> levels (sampleState [5, 0, 0, 0, 0, 0] True)
   \<and> dateKey (fst (resetForNewDay taipeiBrowser 1672590000000
                    (sampleState [5, 0, 0, 0, 0, 0] True) emptyStore))
       \<noteq> dateKey (sampleState [5, 0, 0, 0, 0, 0] True)"
  by (simp add: resetToday_eq resetForNewDay_eq sampleState_def replicate_LANES todayKey_def
      taipeiBrowser_def)

subsection \<open>C3: increment and decrement\<close>

text \<open>
  Claim C3, as amended. \<open>increment lane\<close> returns false and leaves the state and the
  store unchanged exactly when the state is locked, the lane is outside \<open>[0, LANES)\<close>,
  the array has no entry at the lane, or the lane's level is not below \<open>maxLevels\<close>.
  Otherwise it replaces the level by the double nearest to the level plus 1, stamps
  \<open>lastUpdated\<close>, calls \<open>save\<close> and returns true; \<open>save\<close> writes the record of the
  new state into the store, unless the store refuses the write, and then the store stays
  as it was. \<open>decrement\<close> is the same with "not above 0" and minus 1. In a well-formed
  state (whole levels between 0 and a whole \<open>maxLevels\<close> of at most \<open>2 ^ 53\<close>) this is
  the claim as written: the refusal is for a level equal to \<open>maxLevels\<close>, or to 0, and
  the step is exactly 1.
\<close>

theorem increment_decrement_spec:
  "increment now lane s ls =
     (if isLocked s \<or> lane < 0 \<or> int LANES \<le> lane \<or> length (levels s) \<le> nat lane
         \<or> maxLevels s \<le> levels s ! nat lane
      then (False, s, ls)
      else (True,
            s\<lparr>levels := (levels s)[nat lane := toDouble (levels s ! nat lane + 1)],
              lastUpdated := of_int now\<rparr>,
            save now (s\<lparr>levels := (levels s)[nat lane := toDouble (levels s ! nat lane + 1)],
                        lastUpdated := of_int now\<rparr>) ls))
   \<and> decrement now lane s ls =
     (if isLocked s \<or> lane < 0 \<or> int LANES \<le> lane \<or> length (levels s) \<le> nat lane
         \<or> levels s ! nat lane \<le> 0
      then (False, s, ls)
      else (True,
            s\<lparr>levels := (levels s)[nat lane := toDouble (levels s ! nat lane - 1)],
              lastUpdated := of_int now\<rparr>,
            save now (s\<lparr>levels := (levels s)[nat lane := toDouble (levels s ! nat lane - 1)],
                        lastUpdated := of_int now\<rparr>) ls))
   \<and> (fst (increment now lane s ls) \<and> \<not> quotaExceeded ls \<longrightarrow>
        item (snd (snd (increment now lane s ls)))
          = Some (RecordText (recordOf now (fst (snd (increment now lane s ls))))))
   \<and> (fst (decrement now lane s ls) \<and> \<not> quotaExceeded ls \<longrightarrow>
        item (snd (snd (decrement now lane s ls)))
          = Some (RecordText (recordOf now (fst (snd (decrement now lane s ls))))))
   \<and> (quotaExceeded ls \<longrightarrow>
        snd (snd (increment now lane s ls)) = ls \<and> snd (snd (decrement now lane s ls)) = ls)
   \<and> (inv s \<longrightarrow>
        increment now lane s ls =
          (if isLocked s \<or> lane < 0 \<or> int LANES \<le> lane \<or> levels s ! nat lane = maxLevels s
           then (False, s, ls)
           else (True,
                 s\<lparr>levels := (levels s)[nat lane := levels s ! nat lane + 1],
                   lastUpdated := of_int now\<rparr>,
                 save now (s\<lparr>levels := (levels s)[nat lane := levels s ! nat lane + 1],
                             lastUpdated := of_int now\<rparr>) ls))
        \<and> decrement now lane s ls =
          (if isLocked s \<or> lane < 0 \<or> int LANES \<le> lane \<or> levels s ! nat lane = 0
           then (False, s, ls)
           else (True,
                 s\<lparr>levels := (levels s)[nat lane := levels s ! nat lane - 1],
                   lastUpdated := of_int now\<rparr>,
                 save now (s\<lparr>levels := (levels s)[nat lane := levels s ! nat lane - 1],
                             lastUpdated := of_int now\<rparr>) ls)))"
proof -
  have w: "fst (increment now lane s ls) \<and> \<not> quotaExceeded ls \<longrightarrow>
        item (snd (snd (increment now lane s ls)))
          = Some (RecordText (recordOf now (fst (snd (increment now lane s ls)))))"
    unfolding increment_general by (simp add: save_written)
  have w': "fst (decrement now lane s ls) \<and> \<not> quotaExceeded ls \<longrightarrow>
        item (snd (snd (decrement now lane s ls)))
          = Some (RecordText (recordOf now (fst (snd (decrement now lane s ls)))))"
    unfolding decrement_general by (simp add: save_written)
  have q: "quotaExceeded ls \<longrightarrow>
        snd (snd (increment now lane s ls)) = ls \<and> snd (snd (decrement now lane s ls)) = ls"
    unfolding increment_general decrement_general by (simp add: save_eq)
  have i: "increment now lane s ls =
          (if isLocked s \<or> lane < 0 \<or> int LANES \<le> lane \<or> levels s ! nat lane = maxLevels s
           then (False, s, ls)
           else (True,
                 s\<lparr>levels := (levels s)[nat lane := levels s ! nat lane + 1],
                   lastUpdated := of_int now\<rparr>,
                 save now (s\<lparr>levels := (levels s)[nat lane := levels s ! nat lane + 1],
                             lastUpdated := of_int now\<rparr>) ls))" if "inv s"
  proof (cases "0 \<le> lane \<and> lane < int LANES \<and> levels s ! nat lane < maxLevels s")
    case True
    from inv_nth [OF that, of lane] True
    have b: "nat lane < length (levels s)" "0 \<le> levels s ! nat lane"
      "whole (levels s ! nat lane)" by auto
    from that have m: "whole (maxLevels s)" "maxLevels s \<le> 2 ^ 53" by (auto simp: inv_def)
    from True have lt: "levels s ! nat lane < maxLevels s" by simp
    note up = step_up_exact [OF b(3) m(1) b(2) lt m(2)]
    from True b show ?thesis unfolding increment_general up(1) by auto
  next
    case False
    show ?thesis
    proof (cases "0 \<le> lane \<and> lane < int LANES")
      case True
      with inv_nth [OF that, of lane]
      have "nat lane < length (levels s)" "levels s ! nat lane \<le> maxLevels s" by auto
      with True False show ?thesis unfolding increment_general by auto
    next
      case False
      then show ?thesis unfolding increment_general by auto
    qed
  qed
  have d: "decrement now lane s ls =
          (if isLocked s \<or> lane < 0 \<or> int LANES \<le> lane \<or> levels s ! nat lane = 0
           then (False, s, ls)
           else (True,
                 s\<lparr>levels := (levels s)[nat lane := levels s ! nat lane - 1],
                   lastUpdated := of_int now\<rparr>,
                 save now (s\<lparr>levels := (levels s)[nat lane := levels s ! nat lane - 1],
                             lastUpdated := of_int now\<rparr>) ls))" if "inv s"
  proof (cases "0 \<le> lane \<and> lane < int LANES \<and> 0 < levels s ! nat lane")
    case True
    from inv_nth [OF that, of lane] True
    have b: "nat lane < length (levels s)" "levels s ! nat lane \<le> maxLevels s"
      "whole (levels s ! nat lane)" by auto
    from that have m: "maxLevels s \<le> 2 ^ 53" by (auto simp: inv_def)
    from b(2) m have le: "levels s ! nat lane \<le> 2 ^ 53" by simp
    from True have gt: "0 < levels s ! nat lane" by simp
    note down = step_down_exact [OF b(3) gt le]
    from True b show ?thesis unfolding decrement_general down(1) by auto
  next
    case False
    show ?thesis
    proof (cases "0 \<le> lane \<and> lane < int LANES")
      case True
      with inv_nth [OF that, of lane]
      have "nat lane < length (levels s)" "0 \<le> levels s ! nat lane" by auto
      with True False show ?thesis unfolding decrement_general by auto
    next
      case False
      then show ?thesis unfolding decrement_general by auto
    qed
  qed
  from w w' q i d show ?thesis
    using increment_general [of now lane s ls] decrement_general [of now lane s ls] by blast
qed

theorem increment_decrement_spec_witness:
  "inv (sampleState [0, 0, 5, 0, 0, 0] False)
   \<and> \<not> quotaExceeded emptyStore
   \<and> fst (increment 1672570000000 2 (sampleState [0, 0, 5, 0, 0, 0] False) emptyStore)
   \<and> levels (fst (snd (increment 1672570000000 2 (sampleState [0, 0, 5, 0, 0, 0] False) emptyStore)))
       = [0, 0, 6, 0, 0, 0]
   \<and> lastUpdated (fst (snd (increment 1672570000000 2 (sampleState [0, 0, 5, 0, 0, 0] False)
       emptyStore))) = 1672570000000
   \<and> item (snd (snd (increment 1672570000000 2 (sampleState [0, 0, 5, 0, 0, 0] False) emptyStore)))
       = Some (RecordText
           \<lparr>data_version = 1, data_tz = ''Asia/Taipei'', data_dateKey = ''2023-01-01'',
            data_levels = [0, 0, 6, 0, 0, 0], data_maxLevels = 20,
            data_lastUpdated = 1672570000000\<rparr>)
   \<and> fst (decrement 1672570000000 2 (sampleState [0, 0, 5, 0, 0, 0] False) emptyStore)
   \<and> levels (fst (snd (decrement 1672570000000 2 (sampleState [0, 0, 5, 0, 0, 0] False) emptyStore)))
       = [0, 0, 4, 0, 0, 0]
   \<and> decrement 1672570000000 0 (sampleState [0, 0, 5, 0, 0, 0] False) emptyStore
       = (False, sampleState [0, 0, 5, 0, 0, 0] False, emptyStore)
   \<and> increment 1672570000000 6 (sampleState [0, 0, 5, 0, 0, 0] False) emptyStore
       = (False, sampleState [0, 0, 5, 0, 0, 0] False, emptyStore)"
proof -
  let ?s = "sampleState [0, 0, 5, 0, 0, 0] False"
  have h: "inv ?s" by (rule inv_sampleState)
  have q: "\<not> quotaExceeded emptyStore" by (simp add: emptyStore_def)
  have l: "levels ?s = [0, 0, 5, 0, 0, 0]" "\<not> isLocked ?s" "maxLevels ?s = 20"
    by (simp_all add: sampleState_def)
  have u: "[0, 0, 5, 0, 0, 0 :: number][2 := v] = [0, 0, v, 0, 0, 0]" for v
    by (simp add: numeral_2_eq_2)
  note spec2 = increment_decrement_spec [of 1672570000000 2 ?s emptyStore]
  from spec2 h
  have e: "increment 1672570000000 2 ?s emptyStore
      = (True, ?s\<lparr>levels := [0, 0, 6, 0, 0, 0], lastUpdated := 1672570000000\<rparr>,
         save 1672570000000 (?s\<lparr>levels := [0, 0, 6, 0, 0, 0], lastUpdated := 1672570000000\<rparr>)
           emptyStore)"
    by (simp add: l u LANES_def toDouble_exact)
  from spec2 h
  have e': "decrement 1672570000000 2 ?s emptyStore
      = (True, ?s\<lparr>levels := [0, 0, 4, 0, 0, 0], lastUpdated := 1672570000000\<rparr>,
         save 1672570000000 (?s\<lparr>levels := [0, 0, 4, 0, 0, 0], lastUpdated := 1672570000000\<rparr>)
           emptyStore)"
    by (simp add: l u LANES_def toDouble_exact)
  have a: "fst (increment 1672570000000 2 ?s emptyStore)
      \<and> levels (fst (snd (increment 1672570000000 2 ?s emptyStore))) = [0, 0, 6, 0, 0, 0]
      \<and> lastUpdated (fst (snd (increment 1672570000000 2 ?s emptyStore))) = 1672570000000
      \<and> fst (decrement 1672570000000 2 ?s emptyStore)
      \<and> levels (fst (snd (decrement 1672570000000 2 ?s emptyStore))) = [0, 0, 4, 0, 0, 0]"
    unfolding e e' by simp
  from a q spec2
  have "item (snd (snd (increment 1672570000000 2 ?s emptyStore)))
      = Some (RecordText (recordOf 1672570000000 (fst (snd (increment 1672570000000 2 ?s emptyStore)))))"
    by blast
  then have w: "item (snd (snd (increment 1672570000000 2 ?s emptyStore)))
       = Some (RecordText
           \<lparr>data_version = 1, data_tz = ''Asia/Taipei'', data_dateKey = ''2023-01-01'',
            data_levels = [0, 0, 6, 0, 0, 0], data_maxLevels = 20,
            data_lastUpdated = 1672570000000\<rparr>)"
    unfolding e by (simp add: recordOf_def sampleState_def)
  have b: "decrement 1672570000000 0 ?s emptyStore = (False, ?s, emptyStore)"
    using increment_decrement_spec [of 1672570000000 0 ?s emptyStore] h by (simp add: l)
  have c: "increment 1672570000000 6 ?s emptyStore = (False, ?s, emptyStore)"
    using increment_decrement_spec [of 1672570000000 6 ?s emptyStore] by (simp add: LANES_def)
  from h q a w b c show ?thesis by blast
qed

text \<open>
  The claim as written fails in three states that \<open>loadOrInit\<close> produces from a stored
  record. With a level of 99 above the maximum 20, \<open>increment\<close> returns false although
  the state is unlocked, the lane in range and the level different from the maximum. With
  a level of -1, \<open>decrement\<close> returns false although the level is not 0. With a level of
  \<open>2 ^ 53\<close> below a maximum of \<open>2 ^ 60\<close>, \<open>increment\<close> returns true and the level is what
  it was, since \<open>2 ^ 53 + 1\<close> is not a double.
\<close>

theorem increment_decrement_spec_counterexample:
  "\<not> isLocked (adoptedState [99, 0, 0, 0, 0, 0] 20)
   \<and> levels (adoptedState [99, 0, 0, 0, 0, 0] 20) ! 0 \<noteq> maxLevels (adoptedState [99, 0, 0, 0, 0, 0] 20)
   \<and> increment 1672570000001 0 (adoptedState [99, 0, 0, 0, 0, 0] 20) emptyStore
       = (False, adoptedState [99, 0, 0, 0, 0, 0] 20, emptyStore)
   \<and> \<not> isLocked (adoptedState [- 1, 0, 0, 0, 0, 0] 20)
   \<and> levels (adoptedState [- 1, 0, 0, 0, 0, 0] 20) ! 0 \<noteq> 0
   \<and> decrement 1672570000001 0 (adoptedState [- 1, 0, 0, 0, 0, 0] 20) emptyStore
       = (False, adoptedState [- 1, 0, 0, 0, 0, 0] 20, emptyStore)
   \<and> fst (increment 1672570000001 0
            (adoptedState [9007199254740992, 0, 0, 0, 0, 0] 1152921504606846976) emptyStore)
   \<and> levels (fst (snd (increment 1672570000001 0
            (adoptedState [9007199254740992, 0, 0, 0, 0, 0] 1152921504606846976) emptyStore)))
       = levels (adoptedState [9007199254740992, 0, 0, 0, 0, 0] 1152921504606846976)"
  by (simp add: adoptedState_eq increment_general decrement_general LANES_def toDouble_values)

subsection \<open>C4: the two resets\<close>

text \<open>
  Claim C4. \<open>resetToday\<close> sets every level to 0 and keeps the date key;
  \<open>resetForNewDay\<close> sets every level to 0 and the date key to \<open>todayKey\<close>; both call
  \<open>save\<close> on the new state, which stores its record whenever the store accepts the
  write.
\<close>

theorem resets_spec:
  "levels (fst (resetToday now s ls)) = replicate LANES 0
   \<and> dateKey (fst (resetToday now s ls)) = dateKey s
   \<and> snd (resetToday now s ls) = save now (fst (resetToday now s ls)) ls
   \<and> levels (fst (resetForNewDay P now s ls)) = replicate LANES 0
   \<and> dateKey (fst (resetForNewDay P now s ls)) = todayKey P now s
   \<and> snd (resetForNewDay P now s ls) = save now (fst (resetForNewDay P now s ls)) ls
   \<and> (\<not> quotaExceeded ls \<longrightarrow>
        item (snd (resetToday now s ls))
          = Some (RecordText (recordOf now (fst (resetToday now s ls))))
        \<and> item (snd (resetForNewDay P now s ls))
          = Some (RecordText (recordOf now (fst (resetForNewDay P now s ls)))))"
  by (simp add: resetToday_eq resetForNewDay_eq save_eq)

theorem resets_spec_witness:
  "\<not> quotaExceeded emptyStore
   \<and> levels (fst (resetToday 1672590000000 (sampleState [0, 0, 5, 0, 0, 0] False) emptyStore))
       = [0, 0, 0, 0, 0, 0]
   \<and> dateKey (fst (resetToday 1672590000000 (sampleState [0, 0, 5, 0, 0, 0] False) emptyStore))
       = ''2023-01-01''
   \<and> dateKey (fst (resetForNewDay taipeiBrowser 1672590000000
                     (sampleState [0, 0, 5, 0, 0, 0] False) emptyStore)) = ''2023-01-02''
   \<and> item (snd (resetForNewDay taipeiBrowser 1672590000000
                     (sampleState [0, 0, 5, 0, 0, 0] False) emptyStore))
       = Some (RecordText (recordOf 1672590000000
           (fst (resetForNewDay taipeiBrowser 1672590000000
                     (sampleState [0, 0, 5, 0, 0, 0] False) emptyStore))))"
proof -
  let ?s = "sampleState [0, 0, 5, 0, 0, 0] False"
  have q: "\<not> quotaExceeded emptyStore" by (simp add: emptyStore_def)
  have k: "todayKey taipeiBrowser 1672590000000 ?s = ''2023-01-02''"
    by (simp add: todayKey_def taipeiBrowser_def)
  have d: "dateKey ?s = ''2023-01-01''" by (simp add: sampleState_def)
  from q resets_spec [of 1672590000000 ?s emptyStore taipeiBrowser]
  show ?thesis unfolding k d replicate_LANES by blast
qed

subsection \<open>C5: loadOrInit\<close>



subsection \<open>C6: saving and loading again\<close>



subsection \<open>C7: the midnight timer\<close>

text \<open>
  Claim C7, evaluated on the code. \<open>scheduleMidnightReset\<close> leaves exactly one midnight
  timer pending, due \<open>msUntilNextMidnight\<close> after now (lemma
  \<open>scheduleMidnightReset_single\<close>). But the callback it arms throws a TypeError after
  \<open>resetForNewDay\<close> and never reaches the call that would arm the next timer: started
  one millisecond before midnight, the program arms handle 1 with a delay of 1 ms; when
  that timer fires the day rolls over to 2023-01-02 and no timer is pending afterwards.
\<close>

theorem midnight_timer_not_rearmed:
  "fst (midnightCallback P now w) = Some TypeError
   \<and> timers (snd (midnightCallback P now w)) = timers w
   \<and> pending (timers (init taipeiBrowser 1672588799999 emptyStore))
       = [\<lparr>handle = 1, callback = MidnightTask, due = 1672588800000\<rparr>]
   \<and> fst (fireTimer taipeiBrowser 1672588800000 1 (init taipeiBrowser 1672588799999 emptyStore))
       = Some TypeError
   \<and> dateKey (app (snd (fireTimer taipeiBrowser 1672588800000 1
         (init taipeiBrowser 1672588799999 emptyStore)))) = ''2023-01-02''
   \<and> pending (timers (snd (fireTimer taipeiBrowser 1672588800000 1
         (init taipeiBrowser 1672588799999 emptyStore)))) = []"
  unfolding init_before_midnight
  by (simp add: midnightCallback_eq fireTimer_def clearTimeout_def resetForNewDay_eq todayKey_def
      taipeiBrowser_def)

text \<open>
  The delay is measured to the midnight of the browser's own zone. In a browser on UTC,
  at 01:00 of 2023-01-02 in Asia/Taipei (1672592400000), the next midnight of Asia/Taipei
  is 23 hours away (at 1672675200000), and the delay armed is 31 hours.
\<close>

lemma msUntilNextMidnight_examples:
  "msUntilNextMidnight taipeiBrowser 1672588799999 (constructor 0) = 1"
  "msUntilNextMidnight taipeiBrowser 1672592400000 (constructor 0) = 23 * 3600000"
  "msUntilNextMidnight utcBrowser 1672592400000 (constructor 0) = 31 * 3600000"
  by (simp_all add: msUntilNextMidnight_def taipeiBrowser_def utcBrowser_def DAY_MS_def
      constructor_def)


subsection \<open>C8: the visibility timer\<close>

text \<open>
  What the listener and the browser do: an event that finds the page visible appends
  one timer, due 1000 ms later, and stores its handle; an event that finds the page
  hidden does nothing; a pending visibility timer that fires runs the comparison of
  \<open>todayKey\<close> with the date key, and \<open>resetForNewDay\<close> if they differ.
\<close>

lemma visibility_events_accumulate:
  "pending (timers (onVisibilityChange now False w))
     = pending (timers w)
       @ [\<lparr>handle = nextHandle (timers w), callback = VisibilityTask, due = now + VISIBILITY_DELAY\<rparr>]
   \<and> visibilityTimer (app (onVisibilityChange now False w)) = Some (nextHandle (timers w))
   \<and> onVisibilityChange now True w = w
   \<and> (find (\<lambda>t. handle t = h) (pending (timers w)) = Some t \<and> callback t = VisibilityTask
        \<longrightarrow> fireTimer P now' h w
              = (None, visibilityCallback P now' (w\<lparr>timers := clearTimeout h (timers w)\<rparr>)))
   \<and> app (visibilityCallback P now' w)
       = (if dateKey (app w) \<noteq> todayKey P now' (app w)
          then fst (resetForNewDay P now' (app w) (storage w)) else app w)"
  by (simp add: onVisibilityChange_eq onVisibilityChange_hidden fireTimer_def
      visibilityCallback_eq)

text \<open>
  Claim C8, evaluated on the code. The listener arms a new timer without cancelling the
  one whose handle the state holds, so the pending visibility timer is not replaced. A
  page started on 2023-01-01 becomes visible twice, 100 ms apart, on 2023-01-02: two
  visibility timers are pending (handles 2 and 3) and the state holds handle 3 only. The
  timer of the first event fires and performs the rollover, where the claim lets only
  the last event lead to the comparison; and \<open>cleanup\<close>, which clears the handle the
  state holds, leaves the timer of the first event pending.
\<close>

theorem visibility_timer_not_replaced:
  "pending (timers (onVisibilityChange now False w))
     = pending (timers w)
       @ [\<lparr>handle = nextHandle (timers w), callback = VisibilityTask, due = now + VISIBILITY_DELAY\<rparr>]
   \<and> visibilityTimers (onVisibilityChange 1672590000100 False
         (onVisibilityChange 1672590000000 False (init taipeiBrowser 1672570000000 emptyStore)))
       = [\<lparr>handle = 2, callback = VisibilityTask, due = 1672590001000\<rparr>,
          \<lparr>handle = 3, callback = VisibilityTask, due = 1672590001100\<rparr>]
   \<and> visibilityTimer (app (onVisibilityChange 1672590000100 False
         (onVisibilityChange 1672590000000 False (init taipeiBrowser 1672570000000 emptyStore))))
       = Some 3
   \<and> dateKey (app (onVisibilityChange 1672590000100 False
         (onVisibilityChange 1672590000000 False (init taipeiBrowser 1672570000000 emptyStore))))
       = ''2023-01-01''
   \<and> dateKey (app (snd (fireTimer taipeiBrowser 1672590001000 2
         (onVisibilityChange 1672590000100 False
           (onVisibilityChange 1672590000000 False (init taipeiBrowser 1672570000000 emptyStore))))))
       = ''2023-01-02''
   \<and> visibilityTimers (cleanup (onVisibilityChange 1672590000100 False
         (onVisibilityChange 1672590000000 False (init taipeiBrowser 1672570000000 emptyStore))))
       = [\<lparr>handle = 2, callback = VisibilityTask, due = 1672590001000\<rparr>]"
  unfolding init_afternoon
  by (simp add: onVisibilityChange_eq VISIBILITY_DELAY_def visibilityTimers_def fireTimer_def
      clearTimeout_def visibilityCallback_def resetForNewDay_eq todayKey_def taipeiBrowser_def
      cleanup_def truthy_def Let_def)

subsection \<open>C9: toggleLock\<close>

text \<open>
  Claim C9. In every state, locked or not, \<open>toggleLock\<close> flips \<open>isLocked\<close> and
  nothing else, calls \<open>save\<close>, and returns the new value. The write puts the record of
  the state, stamped with the time of the call, under the storage key; only when the
  store refuses the write does the store stay as it was. Two calls in a row give back
  the original state, so a locked board is unlocked by one call.
\<close>

theorem toggleLock_spec:
  "fst (toggleLock now s ls) = (\<not> isLocked s)
   \<and> fst (snd (toggleLock now s ls)) = s\<lparr>isLocked := \<not> isLocked s\<rparr>
   \<and> snd (snd (toggleLock now s ls)) = save now (s\<lparr>isLocked := \<not> isLocked s\<rparr>) ls
   \<and> (\<not> quotaExceeded ls \<longrightarrow>
        snd (snd (toggleLock now s ls))
          = ls\<lparr>item := Some (RecordText
                 \<lparr>data_version = 1, data_tz = timezone s, data_dateKey = dateKey s,
                  data_levels = levels s, data_maxLevels = maxLevels s,
                  data_lastUpdated = of_int now\<rparr>)\<rparr>)
   \<and> (quotaExceeded ls \<longrightarrow> snd (snd (toggleLock now s ls)) = ls)
   \<and> fst (snd (toggleLock now' (fst (snd (toggleLock now s ls))) (snd (snd (toggleLock now s ls))))) = s
   \<and> (isLocked s \<longrightarrow> \<not> isLocked (fst (snd (toggleLock now s ls))))"
  by (simp add: toggleLock_eq save_eq recordOf_def)

theorem toggleLock_spec_witness:
  "isLocked (sampleState [0, 0, 5, 0, 0, 0] True)
   \<and> \<not> quotaExceeded emptyStore
   \<and> \<not> fst (toggleLock 1672570000000 (sampleState [0, 0, 5, 0, 0, 0] True) emptyStore)
   \<and> \<not> isLocked (fst (snd (toggleLock 1672570000000 (sampleState [0, 0, 5, 0, 0, 0] True)
           emptyStore)))
   \<and> item (snd (snd (toggleLock 1672570000000 (sampleState [0, 0, 5, 0, 0, 0] True) emptyStore)))
       = Some (RecordText
           \<lparr>data_version = 1, data_tz = ''Asia/Taipei'', data_dateKey = ''2023-01-01'',
            data_levels = [0, 0, 5, 0, 0, 0], data_maxLevels = 20,
            data_lastUpdated = 1672570000000\<rparr>)
   \<and> quotaExceeded \<lparr>item = None, quotaExceeded = True\<rparr>
   \<and> item (snd (snd (toggleLock 1672570000000 (sampleState [0, 0, 5, 0, 0, 0] True)
           \<lparr>item = None, quotaExceeded = True\<rparr>))) = None"
proof -
  let ?s = "sampleState [0, 0, 5, 0, 0, 0] True"
  let ?full = "\<lparr>item = None, quotaExceeded = True\<rparr>"
  have l: "isLocked ?s" by (simp add: sampleState_def)
  have q: "\<not> quotaExceeded emptyStore" by (simp add: emptyStore_def)
  have q': "quotaExceeded ?full" by simp
  note t = toggleLock_spec [of 1672570000000 ?s emptyStore 1672570000000]
  from t l have a: "\<not> fst (toggleLock 1672570000000 ?s emptyStore)"
    "\<not> isLocked (fst (snd (toggleLock 1672570000000 ?s emptyStore)))" by blast+
  from t q have "snd (snd (toggleLock 1672570000000 ?s emptyStore))
      = emptyStore\<lparr>item := Some (RecordText
                 \<lparr>data_version = 1, data_tz = timezone ?s, data_dateKey = dateKey ?s,
                  data_levels = levels ?s, data_maxLevels = maxLevels ?s,
                  data_lastUpdated = of_int 1672570000000\<rparr>)\<rparr>" by blast
  then have w: "item (snd (snd (toggleLock 1672570000000 ?s emptyStore)))
       = Some (RecordText
           \<lparr>data_version = 1, data_tz = ''Asia/Taipei'', data_dateKey = ''2023-01-01'',
            data_levels = [0, 0, 5, 0, 0, 0], data_maxLevels = 20,
            data_lastUpdated = 1672570000000\<rparr>)"
    by (simp add: sampleState_def)
  from toggleLock_spec [of 1672570000000 ?s ?full 1672570000000] q'
  have "snd (snd (toggleLock 1672570000000 ?s ?full)) = ?full" by blast
  then have f: "item (snd (snd (toggleLock 1672570000000 ?s ?full))) = None" by simp
  from l q a w q' f show ?thesis by blast
qed

subsection \<open>C10: a refused step\<close>

text \<open>
  Claim C10. When \<open>increment\<close> or \<open>decrement\<close> returns false, the whole state (levels,
  date key, time stamp, lock) and the store are exactly those before the call.
\<close>

theorem failed_step_changes_nothing:
  "(\<not> fst (increment now lane s ls) \<longrightarrow> increment now lane s ls = (False, s, ls))
   \<and> (\<not> fst (decrement now lane s ls) \<longrightarrow> decrement now lane s ls = (False, s, ls))"
  using increment_false [of now lane s ls] decrement_false [of now lane s ls] by blast

theorem failed_step_changes_nothing_witness:
  "\<not> fst (increment 1672570000000 2 (sampleState [0, 0, 20, 0, 0, 0] False) emptyStore)
   \<and> increment 1672570000000 2 (sampleState [0, 0, 20, 0, 0, 0] False) emptyStore
       = (False, sampleState [0, 0, 20, 0, 0, 0] False, emptyStore)
   \<and> \<not> fst (decrement 1672570000000 0 (sampleState [0, 0, 20, 0, 0, 0] False) emptyStore)
   \<and> decrement 1672570000000 0 (sampleState [0, 0, 20, 0, 0, 0] False) emptyStore
       = (False, sampleState [0, 0, 20, 0, 0, 0] False, emptyStore)"
proof -
  let ?s = "sampleState [0, 0, 20, 0, 0, 0] False"
  have a: "\<not> fst (increment 1672570000000 2 ?s emptyStore)"
    by (simp add: increment_general sampleState_def LANES_def)
  have b: "\<not> fst (decrement 1672570000000 0 ?s emptyStore)"
    by (simp add: decrement_general sampleState_def LANES_def)
  from a b failed_step_changes_nothing [of 1672570000000 2 ?s emptyStore]
    failed_step_changes_nothing [of 1672570000000 0 ?s emptyStore]
  show ?thesis by blast
qed

end
